theory Spec2Isabelle
  imports Main
begin

section \<open>RDP probes of the nuclei JavaScript library (pkg/js/libs/rdp/rdp.go)\<close>

subsection \<open>Go values: errors, panics, dynamic values, contexts, durations\<close>

text \<open>
  A Go \<^verbatim>\<open>error\<close> is modelled by its message. A function of the source returns a pair
  of a response and an error that may be nil (\<open>None\<close>); a call may also panic instead of
  returning, which is the second constructor of \<open>outcome\<close>.
\<close>

datatype error = ErrorString string

datatype panic = TypeAssertionError | PanicValue string

datatype 'a outcome = Returns 'a | Panics panic

text \<open>A value of interface type \<^verbatim>\<open>any\<close>; the nil interface is \<open>None\<close> of \<open>any option\<close>.\<close>

datatype any = AnyString string | AnyInt int | AnyBool bool

text \<open>\<^verbatim>\<open>time.Duration\<close> counts nanoseconds.\<close>

type_synonym Duration = int

definition Second :: Duration where
  "Second = 1000000000"

text \<open>
  \<^verbatim>\<open>context.Context\<close> of the Go library, as the tree of its constructors.
  \<open>Value\<close> is \<^verbatim>\<open>ctx.Value(key)\<close> and \<open>Deadline\<close> is \<^verbatim>\<open>ctx.Deadline()\<close>, the latter
  relative to the moment of the call.
\<close>

datatype Context =
    Background
  | TODO
  | WithValue Context any any
  | WithTimeout Context Duration

fun Value :: "Context \<Rightarrow> any \<Rightarrow> any option" where
  "Value Background k = None"
| "Value TODO k = None"
| "Value (WithValue parent k' v) k = (if k = k' then Some v else Value parent k)"
| "Value (WithTimeout parent d) k = Value parent k"

fun Deadline :: "Context \<Rightarrow> Duration option" where
  "Deadline Background = None"
| "Deadline TODO = None"
| "Deadline (WithValue parent k v) = Deadline parent"
| "Deadline (WithTimeout parent d) =
     (case Deadline parent of None \<Rightarrow> Some d | Some d' \<Rightarrow> Some (min d d'))"

text \<open>
  The type assertion \<^verbatim>\<open>v.(string)\<close> in its one-result form: it panics unless the
  dynamic type of \<open>v\<close> is string.
\<close>

definition assert_string :: "any option \<Rightarrow> string outcome" where
  "assert_string v =
     (case v of
        Some (AnyString s) \<Rightarrow> Returns s
      | Some (AnyInt i) \<Rightarrow> Panics TypeAssertionError
      | Some (AnyBool b) \<Rightarrow> Panics TypeAssertionError
      | None \<Rightarrow> Panics TypeAssertionError)"

subsection \<open>Formatting: \<^verbatim>\<open>fmt.Sprintf("%s:%d", host, port)\<close>\<close>

definition digit_char :: "nat \<Rightarrow> char" where
  "digit_char d = ''0123456789'' ! (d mod 10)"

fun digits :: "nat \<Rightarrow> string" where
  "digits n = (if n < 10 then [digit_char n] else digits (n div 10) @ [digit_char n])"

definition fmt_d :: "int \<Rightarrow> string" where
  "fmt_d i = (if i < 0 then CHR ''-'' # digits (nat (- i)) else digits (nat i))"

definition Sprintf_s_colon_d :: "string \<Rightarrow> int \<Rightarrow> string" where
  "Sprintf_s_colon_d host port = host @ '':'' @ fmt_d port"

definition Errorf_dialers_not_initialized :: "string \<Rightarrow> error" where
  "Errorf_dialers_not_initialized executionId =
     ErrorString (''dialers not initialized for '' @ executionId)"

subsection \<open>Collaborators: the dialer registry, the dialer, the decoders\<close>

type_synonym conn = nat
type_synonym fastdialer = nat

text \<open>
  \<^verbatim>\<open>plugins.ServiceRDP\<close> of fingerprintx is a struct of string fields; it is kept as the
  list of its field names and values.
\<close>

type_synonym ServiceRDP = "(string \<times> string) list"

record Dialers =
  Fastdialer :: fastdialer

text \<open>
  Every call that leaves the package is recorded, in order, with its arguments.
\<close>

datatype event =
    EvDial fastdialer Context string string
  | EvDetectRDP conn Duration
  | EvDetectRDPAuth conn Duration
  | EvClose conn

text \<open>
  The network and the decoders are outside the package. Their answers are parameters
  of the model, and may depend on everything that has happened so far (the list of
  earlier events), so that the same call can be answered differently at different
  times. \<open>Dial\<close> is \<^verbatim>\<open>(*fastdialer.Dialer).Dial(ctx, network, address)\<close>, which
  returns a connection or an error; \<open>DetectRDP\<close> and \<open>DetectRDPAuth\<close> are the
  functions of fingerprintx, which return three results each.
\<close>

record world =
  Dial :: "event list \<Rightarrow> fastdialer \<Rightarrow> Context \<Rightarrow> string \<Rightarrow> string \<Rightarrow> (error + conn) outcome"
  DetectRDP :: "event list \<Rightarrow> conn \<Rightarrow> Duration \<Rightarrow> (string \<times> bool \<times> error option) outcome"
  DetectRDPAuth ::
    "event list \<Rightarrow> conn \<Rightarrow> Duration \<Rightarrow> (ServiceRDP option \<times> bool \<times> error option) outcome"

text \<open>
  The state a probe reads and writes: the registry of dialers of package protocolstate,
  and the record of the calls made.
\<close>

record state =
  dialers :: "string \<rightharpoonup> Dialers"
  trace :: "event list"

text \<open>
  Modelled from the spec: \<^verbatim>\<open>protocolstate.GetDialersWithId\<close> is not part of the
  source at hand. It is the lookup \<^verbatim>\<open>resolveDialer(runId) -> DialerHandle | absent\<close>
  of the registry, without side effects; absent is the nil pointer.
\<close>

definition GetDialersWithId :: "state \<Rightarrow> string \<Rightarrow> Dialers option" where
  "GetDialersWithId st executionId = dialers st executionId"

definition record_event :: "event \<Rightarrow> state \<Rightarrow> state" where
  "record_event e st = st\<lparr>trace := trace st @ [e]\<rparr>"

definition call_Dial ::
  "world \<Rightarrow> fastdialer \<Rightarrow> Context \<Rightarrow> string \<Rightarrow> string \<Rightarrow> state \<Rightarrow> (error + conn) outcome \<times> state"
where
  "call_Dial w fd ctx network address st =
     (Dial w (trace st) fd ctx network address, record_event (EvDial fd ctx network address) st)"

definition call_DetectRDP ::
  "world \<Rightarrow> conn \<Rightarrow> Duration \<Rightarrow> state \<Rightarrow> (string \<times> bool \<times> error option) outcome \<times> state"
where
  "call_DetectRDP w c timeout st =
     (DetectRDP w (trace st) c timeout, record_event (EvDetectRDP c timeout) st)"

definition call_DetectRDPAuth ::
  "world \<Rightarrow> conn \<Rightarrow> Duration \<Rightarrow> state
     \<Rightarrow> (ServiceRDP option \<times> bool \<times> error option) outcome \<times> state"
where
  "call_DetectRDPAuth w c timeout st =
     (DetectRDPAuth w (trace st) c timeout, record_event (EvDetectRDPAuth c timeout) st)"

text \<open>
  \<^verbatim>\<open>defer func() { _ = conn.Close() }()\<close>: the deferred call runs when the rest of the
  function body is left, by a return or by a panic; what \<^verbatim>\<open>Close\<close> returns is
  discarded.
\<close>

definition defer_Close :: "conn \<Rightarrow> 'a outcome \<times> state \<Rightarrow> 'a outcome \<times> state" where
  "defer_Close c body = (fst body, record_event (EvClose c) (snd body))"

subsection \<open>The presence probe\<close>

record IsRDPResponse =
  IsRDP :: bool
  OS :: string

definition isRDP ::
  "world \<Rightarrow> string \<Rightarrow> string \<Rightarrow> int \<Rightarrow> state \<Rightarrow> (IsRDPResponse \<times> error option) outcome \<times> state"
where
  "isRDP w executionId host port st =
     (let resp = \<lparr>IsRDP = False, OS = ''''\<rparr> in
      case GetDialersWithId st executionId of
        None \<Rightarrow>
          (Returns (\<lparr>IsRDP = False, OS = ''''\<rparr>, Some (Errorf_dialers_not_initialized executionId)),
           st)
      | Some dialer \<Rightarrow>
          let timeout = 5 * Second in
          (case call_Dial w (Fastdialer dialer) TODO ''tcp'' (Sprintf_s_colon_d host port) st of
             (Panics p, st1) \<Rightarrow> (Panics p, st1)
           | (Returns (Inl err), st1) \<Rightarrow> (Returns (resp, Some err), st1)
           | (Returns (Inr conn), st1) \<Rightarrow>
               defer_Close conn
                 (case call_DetectRDP w conn timeout st1 of
                    (Panics p, st2) \<Rightarrow> (Panics p, st2)
                  | (Returns (server, is_rdp, Some err), st2) \<Rightarrow> (Returns (resp, Some err), st2)
                  | (Returns (server, is_rdp, None), st2) \<Rightarrow>
                      if \<not> is_rdp then (Returns (resp, None), st2)
                      else (Returns (resp\<lparr>IsRDP := True, OS := server\<rparr>, None), st2))))"

subsection \<open>The authentication probe\<close>

record CheckRDPAuthResponse =
  PluginInfo :: "ServiceRDP option"
  Auth :: bool

definition checkRDPAuth ::
  "world \<Rightarrow> string \<Rightarrow> string \<Rightarrow> int \<Rightarrow> state
     \<Rightarrow> (CheckRDPAuthResponse \<times> error option) outcome \<times> state"
where
  "checkRDPAuth w executionId host port st =
     (let resp = \<lparr>PluginInfo = None, Auth = False\<rparr> in
      case GetDialersWithId st executionId of
        None \<Rightarrow>
          (Returns (\<lparr>PluginInfo = None, Auth = False\<rparr>,
                    Some (Errorf_dialers_not_initialized executionId)),
           st)
      | Some dialer \<Rightarrow>
          let timeout = 5 * Second in
          (case call_Dial w (Fastdialer dialer) TODO ''tcp'' (Sprintf_s_colon_d host port) st of
             (Panics p, st1) \<Rightarrow> (Panics p, st1)
           | (Returns (Inl err), st1) \<Rightarrow> (Returns (resp, Some err), st1)
           | (Returns (Inr conn), st1) \<Rightarrow>
               defer_Close conn
                 (case call_DetectRDPAuth w conn timeout st1 of
                    (Panics p, st2) \<Rightarrow> (Panics p, st2)
                  | (Returns (pluginInfo, auth, Some err), st2) \<Rightarrow> (Returns (resp, Some err), st2)
                  | (Returns (pluginInfo, auth, None), st2) \<Rightarrow>
                      if \<not> auth then (Returns (resp, None), st2)
                      else (Returns (resp\<lparr>Auth := True, PluginInfo := pluginInfo\<rparr>, None), st2))))"

subsection \<open>Observations on the record of calls\<close>

text \<open>The events a computation added to those of the state it started from.\<close>

definition new_events :: "state \<Rightarrow> state \<Rightarrow> event list" where
  "new_events st st' = drop (length (trace st)) (trace st')"

fun dial_attempts :: "event list \<Rightarrow> nat" where
  "dial_attempts [] = 0"
| "dial_attempts (EvDial fd ctx network address # es) = Suc (dial_attempts es)"
| "dial_attempts (EvDetectRDP c t # es) = dial_attempts es"
| "dial_attempts (EvDetectRDPAuth c t # es) = dial_attempts es"
| "dial_attempts (EvClose c # es) = dial_attempts es"

fun decoder_calls :: "event list \<Rightarrow> nat" where
  "decoder_calls [] = 0"
| "decoder_calls (EvDial fd ctx network address # es) = decoder_calls es"
| "decoder_calls (EvDetectRDP c t # es) = Suc (decoder_calls es)"
| "decoder_calls (EvDetectRDPAuth c t # es) = Suc (decoder_calls es)"
| "decoder_calls (EvClose c # es) = decoder_calls es"

text \<open>The deadline each dial was given, and the timeout each decoder call was given.\<close>

fun dial_deadlines :: "event list \<Rightarrow> Duration option list" where
  "dial_deadlines [] = []"
| "dial_deadlines (EvDial fd ctx network address # es) = Deadline ctx # dial_deadlines es"
| "dial_deadlines (EvDetectRDP c t # es) = dial_deadlines es"
| "dial_deadlines (EvDetectRDPAuth c t # es) = dial_deadlines es"
| "dial_deadlines (EvClose c # es) = dial_deadlines es"

fun decoder_timeouts :: "event list \<Rightarrow> Duration list" where
  "decoder_timeouts [] = []"
| "decoder_timeouts (EvDial fd ctx network address # es) = decoder_timeouts es"
| "decoder_timeouts (EvDetectRDP c t # es) = t # decoder_timeouts es"
| "decoder_timeouts (EvDetectRDPAuth c t # es) = t # decoder_timeouts es"
| "decoder_timeouts (EvClose c # es) = decoder_timeouts es"

text \<open>How often a connection was closed.\<close>

fun close_count :: "conn \<Rightarrow> event list \<Rightarrow> nat" where
  "close_count c [] = 0"
| "close_count c (EvDial fd ctx network address # es) = close_count c es"
| "close_count c (EvDetectRDP c' t # es) = close_count c es"
| "close_count c (EvDetectRDPAuth c' t # es) = close_count c es"
| "close_count c (EvClose c' # es) = (if c' = c then Suc (close_count c es) else close_count c es)"

subsection \<open>The memoized probes and the exported functions\<close>

text \<open>
  The memoized probes \<^verbatim>\<open>memoizedisRDP\<close> and \<^verbatim>\<open>memoizedcheckRDPAuth\<close> are generated
  from the \<^verbatim>\<open>@memo\<close> annotations and are not part of the source at hand. The key of
  the spec is (run identity, host, port, probe kind); the probe kind selects one of the
  two caches of \<open>memo_state\<close>, each holding the outcomes of its kind.
\<close>

type_synonym ProbeArgs = "string \<times> string \<times> int"

record memo_state =
  presence_cache :: "ProbeArgs \<rightharpoonup> (IsRDPResponse \<times> error option)"
  auth_cache :: "ProbeArgs \<rightharpoonup> (CheckRDPAuthResponse \<times> error option)"
  run :: state

text \<open>
  Modelled from the spec: the Memoized Probe Executor
  \<^verbatim>\<open>memoize(key, computeFn) -> Outcome\<close>, which is not part of the source at hand, for
  callers that come one after the other. The first caller for a key runs \<open>computeFn\<close>
  and its outcome, success or failure alike, is stored under the key; a later caller for
  the same key receives the stored outcome and \<open>computeFn\<close> is not run. The spec
  defines no outcome for a computation that panics: nothing is stored then and the panic
  goes on to the caller.
\<close>

definition memoize ::
  "'k \<Rightarrow> (state \<Rightarrow> 'o outcome \<times> state) \<Rightarrow> ('k \<rightharpoonup> 'o) \<times> state
     \<Rightarrow> 'o outcome \<times> ('k \<rightharpoonup> 'o) \<times> state"
where
  "memoize key computeFn cs =
     (case fst cs key of
        Some out \<Rightarrow> (Returns out, cs)
      | None \<Rightarrow>
          (case computeFn (snd cs) of
             (Returns out, st') \<Rightarrow> (Returns out, (fst cs)(key \<mapsto> out), st')
           | (Panics p, st') \<Rightarrow> (Panics p, fst cs, st')))"

text \<open>
  Modelled from the spec: \<^verbatim>\<open>memoizedisRDP\<close>, generated and not part of the source at
  hand, is \<open>isRDP\<close> under the executor, with the key of the presence probe.
\<close>

definition memoizedisRDP ::
  "world \<Rightarrow> string \<Rightarrow> string \<Rightarrow> int \<Rightarrow> memo_state
     \<Rightarrow> (IsRDPResponse \<times> error option) outcome \<times> memo_state"
where
  "memoizedisRDP w executionId host port ms =
     (case memoize (executionId, host, port) (isRDP w executionId host port)
             (presence_cache ms, run ms) of
        (r, cache', st') \<Rightarrow> (r, ms\<lparr>presence_cache := cache', run := st'\<rparr>))"

text \<open>
  Modelled from the spec: \<^verbatim>\<open>memoizedcheckRDPAuth\<close>, generated and not part of the
  source at hand, is \<open>checkRDPAuth\<close> under the executor, with the key of the
  authentication probe.
\<close>

definition memoizedcheckRDPAuth ::
  "world \<Rightarrow> string \<Rightarrow> string \<Rightarrow> int \<Rightarrow> memo_state
     \<Rightarrow> (CheckRDPAuthResponse \<times> error option) outcome \<times> memo_state"
where
  "memoizedcheckRDPAuth w executionId host port ms =
     (case memoize (executionId, host, port) (checkRDPAuth w executionId host port)
             (auth_cache ms, run ms) of
        (r, cache', st') \<Rightarrow> (r, ms\<lparr>auth_cache := cache', run := st'\<rparr>))"

text \<open>
  The exported functions. \<open>IsRDP_fn\<close> is \<^verbatim>\<open>IsRDP\<close> of the source (the name is taken by
  the field of \<open>IsRDPResponse\<close>). The run identity is read from the context by an
  unchecked type assertion.
\<close>

definition IsRDP_fn ::
  "world \<Rightarrow> Context \<Rightarrow> string \<Rightarrow> int \<Rightarrow> memo_state
     \<Rightarrow> (IsRDPResponse \<times> error option) outcome \<times> memo_state"
where
  "IsRDP_fn w ctx host port ms =
     (case assert_string (Value ctx (AnyString ''executionId'')) of
        Panics p \<Rightarrow> (Panics p, ms)
      | Returns executionId \<Rightarrow> memoizedisRDP w executionId host port ms)"

definition CheckRDPAuth ::
  "world \<Rightarrow> Context \<Rightarrow> string \<Rightarrow> int \<Rightarrow> memo_state
     \<Rightarrow> (CheckRDPAuthResponse \<times> error option) outcome \<times> memo_state"
where
  "CheckRDPAuth w ctx host port ms =
     (case assert_string (Value ctx (AnyString ''executionId'')) of
        Panics p \<Rightarrow> (Panics p, ms)
      | Returns executionId \<Rightarrow> memoizedcheckRDPAuth w executionId host port ms)"

subsection \<open>A concrete run\<close>

text \<open>
  A registry with one run, and a network in which five hosts answer on port 3389:
  an RDP server, a server that is not RDP, one on which the decoders fail, one on which
  they panic, and one that refuses the first connection of the run and accepts the
  later ones. Every other address refuses the connection.
\<close>

definition example_refused :: error where
  "example_refused = ErrorString ''connection refused''"

definition example_io_timeout :: error where
  "example_io_timeout = ErrorString ''i/o timeout''"

definition example_Dial ::
  "event list \<Rightarrow> fastdialer \<Rightarrow> Context \<Rightarrow> string \<Rightarrow> string \<Rightarrow> (error + conn) outcome"
where
  "example_Dial tr fd ctx network address =
     (if address = ''acme.test:3389'' then Returns (Inr 1)
      else if address = ''plain.test:3389'' then Returns (Inr 2)
      else if address = ''broken.test:3389'' then Returns (Inr 3)
      else if address = ''crash.test:3389'' then Returns (Inr 4)
      else if address = ''flaky.test:3389'' \<and> tr \<noteq> [] then Returns (Inr 1)
      else Returns (Inl example_refused))"

definition example_DetectRDP ::
  "event list \<Rightarrow> conn \<Rightarrow> Duration \<Rightarrow> (string \<times> bool \<times> error option) outcome"
where
  "example_DetectRDP tr c t =
     (if c = 1 then Returns (''Windows Server 2019'', True, None)
      else if c = 2 then Returns (''unknown'', False, None)
      else if c = 3 then Returns ('''', False, Some example_io_timeout)
      else Panics (PanicValue ''index out of range''))"

definition example_DetectRDPAuth ::
  "event list \<Rightarrow> conn \<Rightarrow> Duration \<Rightarrow> (ServiceRDP option \<times> bool \<times> error option) outcome"
where
  "example_DetectRDPAuth tr c t =
     (if c = 1 then Returns (Some [(''cookie'', ''MSTSHASH=abc'')], True, None)
      else if c = 2 then Returns (Some [(''OSVersion'', ''10.0'')], False, None)
      else if c = 3 then Returns (None, False, Some example_io_timeout)
      else Panics (PanicValue ''index out of range''))"

definition example_world :: world where
  "example_world =
     \<lparr>Dial = example_Dial, DetectRDP = example_DetectRDP, DetectRDPAuth = example_DetectRDPAuth\<rparr>"

definition example_state :: state where
  "example_state = \<lparr>dialers = [''run-1'' \<mapsto> \<lparr>Fastdialer = 7\<rparr>], trace = []\<rparr>"

definition example_memo_state :: memo_state where
  "example_memo_state =
     \<lparr>presence_cache = Map.empty, auth_cache = Map.empty, run = example_state\<rparr>"

definition example_ctx :: Context where
  "example_ctx = WithValue Background (AnyString ''executionId'') (AnyString ''run-1'')"

section \<open>Properties\<close>

subsection \<open>The paths through a probe\<close>

text \<open>
  One equation for each way through \<open>isRDP\<close> and \<open>checkRDPAuth\<close>: no dialer for the
  run, a dial that fails or panics, and a dial that succeeds, after which the outcome is
  that of the decoder.
\<close>

lemmas probe_defs =
  GetDialersWithId_def call_Dial_def call_DetectRDP_def call_DetectRDPAuth_def
  defer_Close_def record_event_def

lemma isRDP_no_dialer:
  "dialers st executionId = None \<Longrightarrow>
   isRDP w executionId host port st =
     (Returns (\<lparr>IsRDP = False, OS = ''''\<rparr>, Some (Errorf_dialers_not_initialized executionId)), st)"
  by (simp add: isRDP_def GetDialersWithId_def)

lemma checkRDPAuth_no_dialer:
  "dialers st executionId = None \<Longrightarrow>
   checkRDPAuth w executionId host port st =
     (Returns (\<lparr>PluginInfo = None, Auth = False\<rparr>,
               Some (Errorf_dialers_not_initialized executionId)), st)"
  by (simp add: checkRDPAuth_def GetDialersWithId_def)

lemma isRDP_dial_failed:
  "dialers st executionId = Some d \<Longrightarrow>
   Dial w (trace st) (Fastdialer d) TODO ''tcp'' (Sprintf_s_colon_d host port) = Returns (Inl err) \<Longrightarrow>
   isRDP w executionId host port st =
     (Returns (\<lparr>IsRDP = False, OS = ''''\<rparr>, Some err),
      st\<lparr>trace := trace st @ [EvDial (Fastdialer d) TODO ''tcp'' (Sprintf_s_colon_d host port)]\<rparr>)"
  by (simp add: isRDP_def probe_defs)

lemma checkRDPAuth_dial_failed:
  "dialers st executionId = Some d \<Longrightarrow>
   Dial w (trace st) (Fastdialer d) TODO ''tcp'' (Sprintf_s_colon_d host port) = Returns (Inl err) \<Longrightarrow>
   checkRDPAuth w executionId host port st =
     (Returns (\<lparr>PluginInfo = None, Auth = False\<rparr>, Some err),
      st\<lparr>trace := trace st @ [EvDial (Fastdialer d) TODO ''tcp'' (Sprintf_s_colon_d host port)]\<rparr>)"
  by (simp add: checkRDPAuth_def probe_defs)

lemma isRDP_dial_panicked:
  "dialers st executionId = Some d \<Longrightarrow>
   Dial w (trace st) (Fastdialer d) TODO ''tcp'' (Sprintf_s_colon_d host port) = Panics p \<Longrightarrow>
   isRDP w executionId host port st =
     (Panics p,
      st\<lparr>trace := trace st @ [EvDial (Fastdialer d) TODO ''tcp'' (Sprintf_s_colon_d host port)]\<rparr>)"
  by (simp add: isRDP_def probe_defs)

lemma checkRDPAuth_dial_panicked:
  "dialers st executionId = Some d \<Longrightarrow>
   Dial w (trace st) (Fastdialer d) TODO ''tcp'' (Sprintf_s_colon_d host port) = Panics p \<Longrightarrow>
   checkRDPAuth w executionId host port st =
     (Panics p,
      st\<lparr>trace := trace st @ [EvDial (Fastdialer d) TODO ''tcp'' (Sprintf_s_colon_d host port)]\<rparr>)"
  by (simp add: checkRDPAuth_def probe_defs)

lemma isRDP_connected:
  "dialers st executionId = Some d \<Longrightarrow>
   Dial w (trace st) (Fastdialer d) TODO ''tcp'' (Sprintf_s_colon_d host port) = Returns (Inr c) \<Longrightarrow>
   isRDP w executionId host port st =
     ((case DetectRDP w (trace st @ [EvDial (Fastdialer d) TODO ''tcp'' (Sprintf_s_colon_d host port)])
              c (5 * Second) of
         Panics p \<Rightarrow> Panics p
       | Returns (server, is_rdp, Some err) \<Rightarrow> Returns (\<lparr>IsRDP = False, OS = ''''\<rparr>, Some err)
       | Returns (server, is_rdp, None) \<Rightarrow>
           if is_rdp then Returns (\<lparr>IsRDP = True, OS = server\<rparr>, None)
           else Returns (\<lparr>IsRDP = False, OS = ''''\<rparr>, None)),
      st\<lparr>trace := trace st @
          [EvDial (Fastdialer d) TODO ''tcp'' (Sprintf_s_colon_d host port),
           EvDetectRDP c (5 * Second), EvClose c]\<rparr>)"
  by (simp add: isRDP_def probe_defs split: outcome.split option.split prod.split)

lemma checkRDPAuth_connected:
  "dialers st executionId = Some d \<Longrightarrow>
   Dial w (trace st) (Fastdialer d) TODO ''tcp'' (Sprintf_s_colon_d host port) = Returns (Inr c) \<Longrightarrow>
   checkRDPAuth w executionId host port st =
     ((case DetectRDPAuth w (trace st @ [EvDial (Fastdialer d) TODO ''tcp'' (Sprintf_s_colon_d host port)])
              c (5 * Second) of
         Panics p \<Rightarrow> Panics p
       | Returns (pluginInfo, auth, Some err) \<Rightarrow> Returns (\<lparr>PluginInfo = None, Auth = False\<rparr>, Some err)
       | Returns (pluginInfo, auth, None) \<Rightarrow>
           if auth then Returns (\<lparr>PluginInfo = pluginInfo, Auth = True\<rparr>, None)
           else Returns (\<lparr>PluginInfo = None, Auth = False\<rparr>, None)),
      st\<lparr>trace := trace st @
          [EvDial (Fastdialer d) TODO ''tcp'' (Sprintf_s_colon_d host port),
           EvDetectRDPAuth c (5 * Second), EvClose c]\<rparr>)"
  by (simp add: checkRDPAuth_def probe_defs split: outcome.split option.split prod.split)

subsection \<open>No dialer for the run\<close>

text \<open>
  C3. When the registry holds no dialer for the run identity, \<open>isRDP\<close> and
  \<open>checkRDPAuth\<close> both return the zero-valued response together with the error
  "dialers not initialized for <run identity>", and leave the state as it was: no dial
  is attempted.
\<close>

theorem probes_without_dialer:
  assumes "GetDialersWithId st executionId = None"
  shows "isRDP w executionId host port st =
           (Returns (\<lparr>IsRDP = False, OS = ''''\<rparr>,
                     Some (ErrorString (''dialers not initialized for '' @ executionId))), st)
       \<and> checkRDPAuth w executionId host port st =
           (Returns (\<lparr>PluginInfo = None, Auth = False\<rparr>,
                     Some (ErrorString (''dialers not initialized for '' @ executionId))), st)
       \<and> dial_attempts (new_events st (snd (isRDP w executionId host port st))) = 0
       \<and> dial_attempts (new_events st (snd (checkRDPAuth w executionId host port st))) = 0"
proof -
  from assms have none: "dialers st executionId = None"
    by (simp add: GetDialersWithId_def)
  show ?thesis
    by (simp add: isRDP_no_dialer [OF none] checkRDPAuth_no_dialer [OF none]
        Errorf_dialers_not_initialized_def new_events_def)
qed

theorem probes_without_dialer_witness:
  "isRDP example_world ''run-2'' ''acme.test'' 3389 example_state =
     (Returns (\<lparr>IsRDP = False, OS = ''''\<rparr>,
               Some (ErrorString ''dialers not initialized for run-2'')), example_state)
   \<and> checkRDPAuth example_world ''run-2'' ''acme.test'' 3389 example_state =
     (Returns (\<lparr>PluginInfo = None, Auth = False\<rparr>,
               Some (ErrorString ''dialers not initialized for run-2'')), example_state)"
proof -
  have absent: "GetDialersWithId example_state ''run-2'' = None"
    by (simp add: GetDialersWithId_def example_state_def)
  from probes_without_dialer [OF absent, of example_world "''acme.test''" 3389]
  show ?thesis by simp
qed

lemma new_events_append [simp]:
  "new_events st (st\<lparr>trace := trace st @ es\<rparr>) = es"
  by (simp add: new_events_def)

lemma new_events_same [simp]: "new_events st st = []"
  by (simp add: new_events_def)

subsection \<open>The calls a probe makes\<close>

text \<open>The events of a probe, whatever the world answers.\<close>

lemma isRDP_events:
  "new_events st (snd (isRDP w executionId host port st)) =
     (case dialers st executionId of
        None \<Rightarrow> []
      | Some d \<Rightarrow>
          EvDial (Fastdialer d) TODO ''tcp'' (Sprintf_s_colon_d host port) #
          (case Dial w (trace st) (Fastdialer d) TODO ''tcp'' (Sprintf_s_colon_d host port) of
             Returns (Inr c) \<Rightarrow> [EvDetectRDP c (5 * Second), EvClose c]
           | Returns (Inl err) \<Rightarrow> []
           | Panics p \<Rightarrow> []))"
proof (cases "dialers st executionId")
  case None
  then show ?thesis by (simp add: isRDP_no_dialer)
next
  case (Some d)
  show ?thesis
  proof (cases "Dial w (trace st) (Fastdialer d) TODO ''tcp'' (Sprintf_s_colon_d host port)")
    case (Panics p)
    with Some show ?thesis by (simp add: isRDP_dial_panicked)
  next
    case (Returns r)
    with Some show ?thesis
      by (cases r) (simp_all add: isRDP_dial_failed isRDP_connected)
  qed
qed

lemma checkRDPAuth_events:
  "new_events st (snd (checkRDPAuth w executionId host port st)) =
     (case dialers st executionId of
        None \<Rightarrow> []
      | Some d \<Rightarrow>
          EvDial (Fastdialer d) TODO ''tcp'' (Sprintf_s_colon_d host port) #
          (case Dial w (trace st) (Fastdialer d) TODO ''tcp'' (Sprintf_s_colon_d host port) of
             Returns (Inr c) \<Rightarrow> [EvDetectRDPAuth c (5 * Second), EvClose c]
           | Returns (Inl err) \<Rightarrow> []
           | Panics p \<Rightarrow> []))"
proof (cases "dialers st executionId")
  case None
  then show ?thesis by (simp add: checkRDPAuth_no_dialer)
next
  case (Some d)
  show ?thesis
  proof (cases "Dial w (trace st) (Fastdialer d) TODO ''tcp'' (Sprintf_s_colon_d host port)")
    case (Panics p)
    with Some show ?thesis by (simp add: checkRDPAuth_dial_panicked)
  next
    case (Returns r)
    with Some show ?thesis
      by (cases r) (simp_all add: checkRDPAuth_dial_failed checkRDPAuth_connected)
  qed
qed

subsection \<open>Release of the connection\<close>

text \<open>
  C8. When the dial succeeds, a probe makes exactly three calls, in this order: the dial,
  the decoder on the connection the dial returned, and the close of that connection.
  This holds for every outcome of the decoder (a result, an error or a panic), so the
  connection is closed exactly once before the probe is left, and the connection a probe
  uses is always the one its own dial returned.
\<close>

theorem stream_closed_exactly_once:
  assumes "GetDialersWithId st executionId = Some d"
    and "Dial w (trace st) (Fastdialer d) TODO ''tcp'' (Sprintf_s_colon_d host port) = Returns (Inr c)"
  shows "trace (snd (isRDP w executionId host port st)) =
           trace st @ [EvDial (Fastdialer d) TODO ''tcp'' (Sprintf_s_colon_d host port),
                       EvDetectRDP c (5 * Second), EvClose c]
       \<and> trace (snd (checkRDPAuth w executionId host port st)) =
           trace st @ [EvDial (Fastdialer d) TODO ''tcp'' (Sprintf_s_colon_d host port),
                       EvDetectRDPAuth c (5 * Second), EvClose c]
       \<and> close_count c (new_events st (snd (isRDP w executionId host port st))) = 1
       \<and> close_count c (new_events st (snd (checkRDPAuth w executionId host port st))) = 1"
proof -
  from assms(1) have d: "dialers st executionId = Some d"
    by (simp add: GetDialersWithId_def)
  show ?thesis
    by (simp add: isRDP_connected [OF d assms(2)] checkRDPAuth_connected [OF d assms(2)])
qed

theorem stream_closed_exactly_once_witness:
  "fst (isRDP example_world ''run-1'' ''crash.test'' 3389 example_state) =
     Panics (PanicValue ''index out of range'')
   \<and> trace (snd (isRDP example_world ''run-1'' ''crash.test'' 3389 example_state)) =
     [EvDial 7 TODO ''tcp'' ''crash.test:3389'', EvDetectRDP 4 5000000000, EvClose 4]
   \<and> trace (snd (checkRDPAuth example_world ''run-1'' ''crash.test'' 3389 example_state)) =
     [EvDial 7 TODO ''tcp'' ''crash.test:3389'', EvDetectRDPAuth 4 5000000000, EvClose 4]"
proof -
  have d: "GetDialersWithId example_state ''run-1'' = Some \<lparr>Fastdialer = 7\<rparr>"
    by (simp add: GetDialersWithId_def example_state_def)
  have addr: "Sprintf_s_colon_d ''crash.test'' 3389 = ''crash.test:3389''"
    by (simp add: Sprintf_s_colon_d_def fmt_d_def digit_char_def)
  have c: "Dial example_world (trace example_state) (Fastdialer \<lparr>Fastdialer = 7\<rparr>) TODO ''tcp''
             (Sprintf_s_colon_d ''crash.test'' 3389) = Returns (Inr 4)"
    by (simp add: addr example_world_def example_Dial_def)
  have p: "fst (isRDP example_world ''run-1'' ''crash.test'' 3389 example_state) =
            Panics (PanicValue ''index out of range'')"
    by (simp add: isRDP_def probe_defs addr example_world_def example_state_def
        example_Dial_def example_DetectRDP_def)
  from stream_closed_exactly_once [OF d c] p show ?thesis
    by (simp add: addr Second_def example_state_def)
qed

subsection \<open>Shape of the responses\<close>

lemma isRDP_response:
  assumes "isRDP w executionId host port st = (Returns (resp, err), st')"
  shows "resp = \<lparr>IsRDP = False, OS = ''''\<rparr> \<or> (IsRDP resp \<and> err = None)"
proof (cases "dialers st executionId")
  case None
  with assms show ?thesis by (simp add: isRDP_no_dialer)
next
  case (Some d)
  show ?thesis
  proof (cases "Dial w (trace st) (Fastdialer d) TODO ''tcp'' (Sprintf_s_colon_d host port)")
    case (Panics p)
    with Some assms show ?thesis by (simp add: isRDP_dial_panicked)
  next
    case (Returns r)
    show ?thesis
    proof (cases r)
      case (Inl e)
      with Some Returns assms show ?thesis by (simp add: isRDP_dial_failed)
    next
      case (Inr c)
      with Some Returns assms show ?thesis
        by (auto simp: isRDP_connected split: outcome.splits option.splits if_splits)
    qed
  qed
qed

lemma checkRDPAuth_response:
  assumes "checkRDPAuth w executionId host port st = (Returns (resp, err), st')"
  shows "resp = \<lparr>PluginInfo = None, Auth = False\<rparr> \<or> (Auth resp \<and> err = None)"
proof (cases "dialers st executionId")
  case None
  with assms show ?thesis by (simp add: checkRDPAuth_no_dialer)
next
  case (Some d)
  show ?thesis
  proof (cases "Dial w (trace st) (Fastdialer d) TODO ''tcp'' (Sprintf_s_colon_d host port)")
    case (Panics p)
    with Some assms show ?thesis by (simp add: checkRDPAuth_dial_panicked)
  next
    case (Returns r)
    show ?thesis
    proof (cases r)
      case (Inl e)
      with Some Returns assms show ?thesis by (simp add: checkRDPAuth_dial_failed)
    next
      case (Inr c)
      with Some Returns assms show ?thesis
        by (auto simp: checkRDPAuth_connected split: outcome.splits option.splits if_splits)
    qed
  qed
qed

subsection \<open>The concrete run, evaluated\<close>

lemma example_address [simp]:
  "Sprintf_s_colon_d ''acme.test'' 3389 = ''acme.test:3389''"
  "Sprintf_s_colon_d ''plain.test'' 3389 = ''plain.test:3389''"
  "Sprintf_s_colon_d ''broken.test'' 3389 = ''broken.test:3389''"
  "Sprintf_s_colon_d ''crash.test'' 3389 = ''crash.test:3389''"
  "Sprintf_s_colon_d ''flaky.test'' 3389 = ''flaky.test:3389''"
  "Sprintf_s_colon_d ''acme.test'' 70000 = ''acme.test:70000''"
  "Sprintf_s_colon_d ''acme.test'' (- 1) = ''acme.test:-1''"
  by (simp_all add: Sprintf_s_colon_d_def fmt_d_def digit_char_def)

lemmas example_defs =
  example_world_def example_state_def example_Dial_def example_DetectRDP_def
  example_DetectRDPAuth_def example_refused_def example_io_timeout_def

lemma example_isRDP_acme:
  "isRDP example_world ''run-1'' ''acme.test'' 3389 example_state =
     (Returns (\<lparr>IsRDP = True, OS = ''Windows Server 2019''\<rparr>, None),
      example_state\<lparr>trace :=
        [EvDial 7 TODO ''tcp'' ''acme.test:3389'', EvDetectRDP 1 5000000000, EvClose 1]\<rparr>)"
  by (simp add: isRDP_def probe_defs example_defs Second_def)

lemma example_checkRDPAuth_acme:
  "checkRDPAuth example_world ''run-1'' ''acme.test'' 3389 example_state =
     (Returns (\<lparr>PluginInfo = Some [(''cookie'', ''MSTSHASH=abc'')], Auth = True\<rparr>, None),
      example_state\<lparr>trace :=
        [EvDial 7 TODO ''tcp'' ''acme.test:3389'', EvDetectRDPAuth 1 5000000000, EvClose 1]\<rparr>)"
  by (simp add: checkRDPAuth_def probe_defs example_defs Second_def)

subsection \<open>Fields and flags\<close>

text \<open>
  C5. In every response a probe returns, the OS label is non-empty only if the IsRDP
  flag is set, and the service information is present only if the Auth flag is set.
\<close>

theorem response_fields_only_with_flag:
  "(isRDP w executionId host port st = (Returns (resp, err), st') \<longrightarrow>
      (OS resp \<noteq> '''' \<longrightarrow> IsRDP resp))
   \<and> (checkRDPAuth w executionId host port st = (Returns (aresp, aerr), st'') \<longrightarrow>
      (PluginInfo aresp \<noteq> None \<longrightarrow> Auth aresp))"
proof (intro conjI impI)
  assume "isRDP w executionId host port st = (Returns (resp, err), st')" and "OS resp \<noteq> ''''"
  then show "IsRDP resp" using isRDP_response by fastforce
next
  assume "checkRDPAuth w executionId host port st = (Returns (aresp, aerr), st'')"
    and "PluginInfo aresp \<noteq> None"
  then show "Auth aresp" using checkRDPAuth_response by fastforce
qed

theorem response_fields_only_with_flag_witness:
  "OS \<lparr>IsRDP = True, OS = ''Windows Server 2019''\<rparr> \<noteq> ''''
   \<and> IsRDP \<lparr>IsRDP = True, OS = ''Windows Server 2019''\<rparr>
   \<and> PluginInfo \<lparr>PluginInfo = Some [(''cookie'', ''MSTSHASH=abc'')], Auth = True\<rparr> \<noteq> None
   \<and> Auth \<lparr>PluginInfo = Some [(''cookie'', ''MSTSHASH=abc'')], Auth = True\<rparr>
   \<and> fst (isRDP example_world ''run-1'' ''acme.test'' 3389 example_state) =
       Returns (\<lparr>IsRDP = True, OS = ''Windows Server 2019''\<rparr>, None)
   \<and> fst (checkRDPAuth example_world ''run-1'' ''acme.test'' 3389 example_state) =
       Returns (\<lparr>PluginInfo = Some [(''cookie'', ''MSTSHASH=abc'')], Auth = True\<rparr>, None)"
  using response_fields_only_with_flag
    [of example_world "''run-1''" "''acme.test''" 3389 example_state
      "\<lparr>IsRDP = True, OS = ''Windows Server 2019''\<rparr>" None
      "example_state\<lparr>trace :=
        [EvDial 7 TODO ''tcp'' ''acme.test:3389'', EvDetectRDP 1 5000000000, EvClose 1]\<rparr>"
      "\<lparr>PluginInfo = Some [(''cookie'', ''MSTSHASH=abc'')], Auth = True\<rparr>" None
      "example_state\<lparr>trace :=
        [EvDial 7 TODO ''tcp'' ''acme.test:3389'', EvDetectRDPAuth 1 5000000000, EvClose 1]\<rparr>"]
  by (simp add: example_isRDP_acme example_checkRDPAuth_acme)

subsection \<open>Negative results\<close>

text \<open>
  C6. When the dial succeeds and the decoder returns without error and reports that the
  service is not RDP, \<open>isRDP\<close> returns the response with IsRDP false and an empty OS
  label, and no error, whatever label the decoder returned with it. When the
  authentication decoder returns without error and reports that authentication is not
  required, \<open>checkRDPAuth\<close> returns the response with Auth false and no service
  information, and no error, whatever information the decoder returned with it.
\<close>

theorem negative_detection_is_zero_response:
  assumes "GetDialersWithId st executionId = Some d"
    and "Dial w (trace st) (Fastdialer d) TODO ''tcp'' (Sprintf_s_colon_d host port) = Returns (Inr c)"
  shows "(DetectRDP w (trace st @ [EvDial (Fastdialer d) TODO ''tcp'' (Sprintf_s_colon_d host port)])
            c (5 * Second) = Returns (server, False, None) \<longrightarrow>
          fst (isRDP w executionId host port st) = Returns (\<lparr>IsRDP = False, OS = ''''\<rparr>, None))
       \<and> (DetectRDPAuth w (trace st @ [EvDial (Fastdialer d) TODO ''tcp'' (Sprintf_s_colon_d host port)])
            c (5 * Second) = Returns (pluginInfo, False, None) \<longrightarrow>
          fst (checkRDPAuth w executionId host port st) =
            Returns (\<lparr>PluginInfo = None, Auth = False\<rparr>, None))"
proof -
  from assms(1) have d: "dialers st executionId = Some d"
    by (simp add: GetDialersWithId_def)
  show ?thesis
    by (simp add: isRDP_connected [OF d assms(2)] checkRDPAuth_connected [OF d assms(2)])
qed

theorem negative_detection_is_zero_response_witness:
  "DetectRDP example_world [EvDial 7 TODO ''tcp'' ''plain.test:3389''] 2 (5 * Second) =
     Returns (''unknown'', False, None)
   \<and> fst (isRDP example_world ''run-1'' ''plain.test'' 3389 example_state) =
     Returns (\<lparr>IsRDP = False, OS = ''''\<rparr>, None)
   \<and> DetectRDPAuth example_world [EvDial 7 TODO ''tcp'' ''plain.test:3389''] 2 (5 * Second) =
     Returns (Some [(''OSVersion'', ''10.0'')], False, None)
   \<and> fst (checkRDPAuth example_world ''run-1'' ''plain.test'' 3389 example_state) =
     Returns (\<lparr>PluginInfo = None, Auth = False\<rparr>, None)"
proof -
  have d: "GetDialersWithId example_state ''run-1'' = Some \<lparr>Fastdialer = 7\<rparr>"
    by (simp add: GetDialersWithId_def example_state_def)
  have c: "Dial example_world (trace example_state) (Fastdialer \<lparr>Fastdialer = 7\<rparr>) TODO ''tcp''
             (Sprintf_s_colon_d ''plain.test'' 3389) = Returns (Inr 2)"
    by (simp add: example_defs)
  have r: "DetectRDP example_world [EvDial 7 TODO ''tcp'' ''plain.test:3389''] 2 (5 * Second) =
             Returns (''unknown'', False, None)"
    by (simp add: example_defs)
  have a: "DetectRDPAuth example_world [EvDial 7 TODO ''tcp'' ''plain.test:3389''] 2 (5 * Second) =
             Returns (Some [(''OSVersion'', ''10.0'')], False, None)"
    by (simp add: example_defs)
  from negative_detection_is_zero_response
         [OF d c, of "''unknown''" "Some [(''OSVersion'', ''10.0'')]"] r a
  show ?thesis by (simp add: example_state_def)
qed

subsection \<open>Failures\<close>

text \<open>
  C7. When the dial fails, a probe returns the error of the dial itself together with
  the zero-valued response, having made that one dial and no other call. When the
  decoder fails, the probe returns the error of the decoder itself together with the
  zero-valued response, whatever else the decoder returned with the error, having made
  one dial, one decoder call and the close of the connection.
\<close>

theorem failures_returned_unchanged:
  assumes "GetDialersWithId st executionId = Some d"
  shows "(Dial w (trace st) (Fastdialer d) TODO ''tcp'' (Sprintf_s_colon_d host port) =
            Returns (Inl err) \<longrightarrow>
          isRDP w executionId host port st =
            (Returns (\<lparr>IsRDP = False, OS = ''''\<rparr>, Some err),
             st\<lparr>trace := trace st @
               [EvDial (Fastdialer d) TODO ''tcp'' (Sprintf_s_colon_d host port)]\<rparr>)
          \<and> checkRDPAuth w executionId host port st =
            (Returns (\<lparr>PluginInfo = None, Auth = False\<rparr>, Some err),
             st\<lparr>trace := trace st @
               [EvDial (Fastdialer d) TODO ''tcp'' (Sprintf_s_colon_d host port)]\<rparr>))
       \<and> (Dial w (trace st) (Fastdialer d) TODO ''tcp'' (Sprintf_s_colon_d host port) =
            Returns (Inr c)
          \<and> DetectRDP w (trace st @ [EvDial (Fastdialer d) TODO ''tcp'' (Sprintf_s_colon_d host port)])
              c (5 * Second) = Returns (server, is_rdp, Some err) \<longrightarrow>
          isRDP w executionId host port st =
            (Returns (\<lparr>IsRDP = False, OS = ''''\<rparr>, Some err),
             st\<lparr>trace := trace st @
               [EvDial (Fastdialer d) TODO ''tcp'' (Sprintf_s_colon_d host port),
                EvDetectRDP c (5 * Second), EvClose c]\<rparr>))
       \<and> (Dial w (trace st) (Fastdialer d) TODO ''tcp'' (Sprintf_s_colon_d host port) =
            Returns (Inr c)
          \<and> DetectRDPAuth w (trace st @ [EvDial (Fastdialer d) TODO ''tcp'' (Sprintf_s_colon_d host port)])
              c (5 * Second) = Returns (pluginInfo, auth, Some err) \<longrightarrow>
          checkRDPAuth w executionId host port st =
            (Returns (\<lparr>PluginInfo = None, Auth = False\<rparr>, Some err),
             st\<lparr>trace := trace st @
               [EvDial (Fastdialer d) TODO ''tcp'' (Sprintf_s_colon_d host port),
                EvDetectRDPAuth c (5 * Second), EvClose c]\<rparr>))"
proof -
  from assms have d: "dialers st executionId = Some d"
    by (simp add: GetDialersWithId_def)
  have dial: "Dial w (trace st) (Fastdialer d) TODO ''tcp'' (Sprintf_s_colon_d host port) =
                Returns (Inl err) \<Longrightarrow>
              isRDP w executionId host port st =
                (Returns (\<lparr>IsRDP = False, OS = ''''\<rparr>, Some err),
                 st\<lparr>trace := trace st @
                   [EvDial (Fastdialer d) TODO ''tcp'' (Sprintf_s_colon_d host port)]\<rparr>)
              \<and> checkRDPAuth w executionId host port st =
                (Returns (\<lparr>PluginInfo = None, Auth = False\<rparr>, Some err),
                 st\<lparr>trace := trace st @
                   [EvDial (Fastdialer d) TODO ''tcp'' (Sprintf_s_colon_d host port)]\<rparr>)"
    by (simp add: isRDP_dial_failed [OF d] checkRDPAuth_dial_failed [OF d])
  have dec: "Dial w (trace st) (Fastdialer d) TODO ''tcp'' (Sprintf_s_colon_d host port) =
               Returns (Inr c) \<Longrightarrow>
             DetectRDP w (trace st @ [EvDial (Fastdialer d) TODO ''tcp'' (Sprintf_s_colon_d host port)])
               c (5 * Second) = Returns (server, is_rdp, Some err) \<Longrightarrow>
             isRDP w executionId host port st =
               (Returns (\<lparr>IsRDP = False, OS = ''''\<rparr>, Some err),
                st\<lparr>trace := trace st @
                  [EvDial (Fastdialer d) TODO ''tcp'' (Sprintf_s_colon_d host port),
                   EvDetectRDP c (5 * Second), EvClose c]\<rparr>)"
    by (simp add: isRDP_connected [OF d])
  have auth: "Dial w (trace st) (Fastdialer d) TODO ''tcp'' (Sprintf_s_colon_d host port) =
               Returns (Inr c) \<Longrightarrow>
             DetectRDPAuth w (trace st @ [EvDial (Fastdialer d) TODO ''tcp'' (Sprintf_s_colon_d host port)])
               c (5 * Second) = Returns (pluginInfo, auth, Some err) \<Longrightarrow>
             checkRDPAuth w executionId host port st =
               (Returns (\<lparr>PluginInfo = None, Auth = False\<rparr>, Some err),
                st\<lparr>trace := trace st @
                  [EvDial (Fastdialer d) TODO ''tcp'' (Sprintf_s_colon_d host port),
                   EvDetectRDPAuth c (5 * Second), EvClose c]\<rparr>)"
    by (simp add: checkRDPAuth_connected [OF d])
  from dial dec auth show ?thesis by blast
qed

theorem failures_returned_unchanged_witness:
  "isRDP example_world ''run-1'' ''flaky.test'' 3389 example_state =
     (Returns (\<lparr>IsRDP = False, OS = ''''\<rparr>, Some (ErrorString ''connection refused'')),
      example_state\<lparr>trace := [EvDial 7 TODO ''tcp'' ''flaky.test:3389'']\<rparr>)
   \<and> checkRDPAuth example_world ''run-1'' ''flaky.test'' 3389 example_state =
     (Returns (\<lparr>PluginInfo = None, Auth = False\<rparr>, Some (ErrorString ''connection refused'')),
      example_state\<lparr>trace := [EvDial 7 TODO ''tcp'' ''flaky.test:3389'']\<rparr>)
   \<and> isRDP example_world ''run-1'' ''broken.test'' 3389 example_state =
     (Returns (\<lparr>IsRDP = False, OS = ''''\<rparr>, Some (ErrorString ''i/o timeout'')),
      example_state\<lparr>trace :=
        [EvDial 7 TODO ''tcp'' ''broken.test:3389'', EvDetectRDP 3 5000000000, EvClose 3]\<rparr>)
   \<and> checkRDPAuth example_world ''run-1'' ''broken.test'' 3389 example_state =
     (Returns (\<lparr>PluginInfo = None, Auth = False\<rparr>, Some (ErrorString ''i/o timeout'')),
      example_state\<lparr>trace :=
        [EvDial 7 TODO ''tcp'' ''broken.test:3389'', EvDetectRDPAuth 3 5000000000, EvClose 3]\<rparr>)"
proof -
  have d: "GetDialersWithId example_state ''run-1'' = Some \<lparr>Fastdialer = 7\<rparr>"
    by (simp add: GetDialersWithId_def example_state_def)
  have refused:
    "Dial example_world (trace example_state) (Fastdialer \<lparr>Fastdialer = 7\<rparr>) TODO ''tcp''
       (Sprintf_s_colon_d ''flaky.test'' 3389) = Returns (Inl (ErrorString ''connection refused''))"
    by (simp add: example_defs)
  have connected:
    "Dial example_world (trace example_state) (Fastdialer \<lparr>Fastdialer = 7\<rparr>) TODO ''tcp''
       (Sprintf_s_colon_d ''broken.test'' 3389) = Returns (Inr 3)"
    by (simp add: example_defs)
  have decoder:
    "DetectRDP example_world
       (trace example_state @
          [EvDial (Fastdialer \<lparr>Fastdialer = 7\<rparr>) TODO ''tcp'' (Sprintf_s_colon_d ''broken.test'' 3389)])
       3 (5 * Second) = Returns ('''', False, Some (ErrorString ''i/o timeout''))"
    by (simp add: example_defs)
  have auth_decoder:
    "DetectRDPAuth example_world
       (trace example_state @
          [EvDial (Fastdialer \<lparr>Fastdialer = 7\<rparr>) TODO ''tcp'' (Sprintf_s_colon_d ''broken.test'' 3389)])
       3 (5 * Second) = Returns (None, False, Some (ErrorString ''i/o timeout''))"
    by (simp add: example_defs)
  note at_flaky =
    failures_returned_unchanged
      [OF d, of example_world "''flaky.test''" 3389 "ErrorString ''connection refused''"]
  note at_broken =
    failures_returned_unchanged
      [OF d, of example_world "''broken.test''" 3389 "ErrorString ''i/o timeout''" 3 "''''" False
        None False]
  from at_flaky refused have one: 
    "isRDP example_world ''run-1'' ''flaky.test'' 3389 example_state =
       (Returns (\<lparr>IsRDP = False, OS = ''''\<rparr>, Some (ErrorString ''connection refused'')),
        example_state\<lparr>trace := [EvDial 7 TODO ''tcp'' ''flaky.test:3389'']\<rparr>)
     \<and> checkRDPAuth example_world ''run-1'' ''flaky.test'' 3389 example_state =
       (Returns (\<lparr>PluginInfo = None, Auth = False\<rparr>, Some (ErrorString ''connection refused'')),
        example_state\<lparr>trace := [EvDial 7 TODO ''tcp'' ''flaky.test:3389'']\<rparr>)"
    by (simp add: example_state_def)
  from at_broken connected decoder auth_decoder have two:
    "isRDP example_world ''run-1'' ''broken.test'' 3389 example_state =
       (Returns (\<lparr>IsRDP = False, OS = ''''\<rparr>, Some (ErrorString ''i/o timeout'')),
        example_state\<lparr>trace :=
          [EvDial 7 TODO ''tcp'' ''broken.test:3389'', EvDetectRDP 3 5000000000, EvClose 3]\<rparr>)
     \<and> checkRDPAuth example_world ''run-1'' ''broken.test'' 3389 example_state =
       (Returns (\<lparr>PluginInfo = None, Auth = False\<rparr>, Some (ErrorString ''i/o timeout'')),
        example_state\<lparr>trace :=
          [EvDial 7 TODO ''tcp'' ''broken.test:3389'', EvDetectRDPAuth 3 5000000000, EvClose 3]\<rparr>)"
    by (simp add: example_state_def Second_def)
  from one two show ?thesis by simp
qed

subsection \<open>The port\<close>

text \<open>
  C9. For every integer port, in range or not, the first call of a probe whose dialer
  is resolved is the dial of the address made of the host, a colon and the port in
  decimal: the port is not checked before. When that dial fails, its error is what the
  probe returns.
\<close>

theorem port_passed_to_dial_unchecked:
  assumes "GetDialersWithId st executionId = Some d"
  shows "take 1 (new_events st (snd (isRDP w executionId host port st))) =
           [EvDial (Fastdialer d) TODO ''tcp'' (host @ '':'' @ fmt_d port)]
       \<and> take 1 (new_events st (snd (checkRDPAuth w executionId host port st))) =
           [EvDial (Fastdialer d) TODO ''tcp'' (host @ '':'' @ fmt_d port)]
       \<and> (Dial w (trace st) (Fastdialer d) TODO ''tcp'' (host @ '':'' @ fmt_d port) =
            Returns (Inl err) \<longrightarrow>
          fst (isRDP w executionId host port st) =
            Returns (\<lparr>IsRDP = False, OS = ''''\<rparr>, Some err)
          \<and> fst (checkRDPAuth w executionId host port st) =
            Returns (\<lparr>PluginInfo = None, Auth = False\<rparr>, Some err))"
proof -
  from assms have d: "dialers st executionId = Some d"
    by (simp add: GetDialersWithId_def)
  have address: "Sprintf_s_colon_d host port = host @ '':'' @ fmt_d port"
    by (simp add: Sprintf_s_colon_d_def)
  have first: "take 1 (new_events st (snd (isRDP w executionId host port st))) =
                 [EvDial (Fastdialer d) TODO ''tcp'' (host @ '':'' @ fmt_d port)]"
    by (simp add: isRDP_events d address)
  have first_auth: "take 1 (new_events st (snd (checkRDPAuth w executionId host port st))) =
                 [EvDial (Fastdialer d) TODO ''tcp'' (host @ '':'' @ fmt_d port)]"
    by (simp add: checkRDPAuth_events d address)
  have failed: "Dial w (trace st) (Fastdialer d) TODO ''tcp'' (host @ '':'' @ fmt_d port) =
                  Returns (Inl err) \<Longrightarrow>
                fst (isRDP w executionId host port st) =
                  Returns (\<lparr>IsRDP = False, OS = ''''\<rparr>, Some err)
                \<and> fst (checkRDPAuth w executionId host port st) =
                  Returns (\<lparr>PluginInfo = None, Auth = False\<rparr>, Some err)"
    using isRDP_dial_failed [OF d, of w host port err]
      checkRDPAuth_dial_failed [OF d, of w host port err]
    by (simp add: address)
  from first first_auth failed show ?thesis by blast
qed

lemma fmt_d_examples:
  "fmt_d 3389 = ''3389''" "fmt_d 70000 = ''70000''" "fmt_d 0 = ''0''" "fmt_d (- 1) = ''-1''"
  by (simp_all add: fmt_d_def digit_char_def)

theorem port_passed_to_dial_unchecked_witness:
  "take 1 (new_events example_state
      (snd (isRDP example_world ''run-1'' ''acme.test'' 70000 example_state))) =
     [EvDial 7 TODO ''tcp'' ''acme.test:70000'']
   \<and> take 1 (new_events example_state
      (snd (checkRDPAuth example_world ''run-1'' ''acme.test'' (- 1) example_state))) =
     [EvDial 7 TODO ''tcp'' ''acme.test:-1'']
   \<and> fst (isRDP example_world ''run-1'' ''acme.test'' 70000 example_state) =
     Returns (\<lparr>IsRDP = False, OS = ''''\<rparr>, Some (ErrorString ''connection refused''))
   \<and> fst (checkRDPAuth example_world ''run-1'' ''acme.test'' (- 1) example_state) =
     Returns (\<lparr>PluginInfo = None, Auth = False\<rparr>, Some (ErrorString ''connection refused''))"
proof -
  have d: "GetDialersWithId example_state ''run-1'' = Some \<lparr>Fastdialer = 7\<rparr>"
    by (simp add: GetDialersWithId_def example_state_def)
  have high:
    "Dial example_world (trace example_state) (Fastdialer \<lparr>Fastdialer = 7\<rparr>) TODO ''tcp''
       (''acme.test'' @ '':'' @ fmt_d 70000) = Returns (Inl (ErrorString ''connection refused''))"
    by (simp add: example_defs fmt_d_examples)
  have negative:
    "Dial example_world (trace example_state) (Fastdialer \<lparr>Fastdialer = 7\<rparr>) TODO ''tcp''
       (''acme.test'' @ '':'' @ fmt_d (- 1)) = Returns (Inl (ErrorString ''connection refused''))"
    by (simp add: example_defs fmt_d_examples)
  from port_passed_to_dial_unchecked
         [OF d, of example_world "''acme.test''" 70000 "ErrorString ''connection refused''"]
       port_passed_to_dial_unchecked
         [OF d, of example_world "''acme.test''" "- 1" "ErrorString ''connection refused''"]
       high negative
  show ?thesis by (simp add: fmt_d_examples)
qed

lemma example_state_trace [simp]: "trace example_state = []"
  by (simp add: example_state_def)

subsection \<open>The dial and the timeout\<close>

text \<open>
  C4, as stated, fails: the dial is given \<open>TODO\<close>, a context without a deadline, so the
  deadline of the dial is not the timeout of five seconds. On the RDP server of the
  concrete run the one dial of each probe has no deadline.
\<close>

theorem dial_deadline_counterexample:
  "dial_deadlines (new_events example_state
      (snd (isRDP example_world ''run-1'' ''acme.test'' 3389 example_state))) = [None]
   \<and> dial_deadlines (new_events example_state
      (snd (isRDP example_world ''run-1'' ''acme.test'' 3389 example_state))) \<noteq> [Some (5 * Second)]
   \<and> dial_deadlines (new_events example_state
      (snd (checkRDPAuth example_world ''run-1'' ''acme.test'' 3389 example_state))) = [None]
   \<and> dial_deadlines (new_events example_state
      (snd (checkRDPAuth example_world ''run-1'' ''acme.test'' 3389 example_state))) \<noteq>
        [Some (5 * Second)]"
  by (simp add: example_isRDP_acme example_checkRDPAuth_acme new_events_def)

text \<open>
  C4, amended. A probe whose dialer is resolved dials exactly once, through the
  Fastdialer of that dialer, with network "tcp", the address host:port and the context
  \<open>TODO\<close>, which carries no deadline; the timeout of five seconds is what every decoder
  call of the probe is given.
\<close>

theorem dial_through_resolved_dialer:
  assumes "GetDialersWithId st executionId = Some d"
  shows "dial_attempts (new_events st (snd (isRDP w executionId host port st))) = 1
       \<and> take 1 (new_events st (snd (isRDP w executionId host port st))) =
           [EvDial (Fastdialer d) TODO ''tcp'' (host @ '':'' @ fmt_d port)]
       \<and> dial_deadlines (new_events st (snd (isRDP w executionId host port st))) = [None]
       \<and> set (decoder_timeouts (new_events st (snd (isRDP w executionId host port st))))
           \<subseteq> {5 * Second}
       \<and> dial_attempts (new_events st (snd (checkRDPAuth w executionId host port st))) = 1
       \<and> take 1 (new_events st (snd (checkRDPAuth w executionId host port st))) =
           [EvDial (Fastdialer d) TODO ''tcp'' (host @ '':'' @ fmt_d port)]
       \<and> dial_deadlines (new_events st (snd (checkRDPAuth w executionId host port st))) = [None]
       \<and> set (decoder_timeouts (new_events st (snd (checkRDPAuth w executionId host port st))))
           \<subseteq> {5 * Second}"
proof -
  from assms have d: "dialers st executionId = Some d"
    by (simp add: GetDialersWithId_def)
  have address: "Sprintf_s_colon_d host port = host @ '':'' @ fmt_d port"
    by (simp add: Sprintf_s_colon_d_def)
  have presence:
    "dial_attempts (new_events st (snd (isRDP w executionId host port st))) = 1
     \<and> take 1 (new_events st (snd (isRDP w executionId host port st))) =
         [EvDial (Fastdialer d) TODO ''tcp'' (host @ '':'' @ fmt_d port)]
     \<and> dial_deadlines (new_events st (snd (isRDP w executionId host port st))) = [None]
     \<and> set (decoder_timeouts (new_events st (snd (isRDP w executionId host port st))))
         \<subseteq> {5 * Second}"
    by (simp add: isRDP_events d address split: outcome.split sum.split)
  have auth:
    "dial_attempts (new_events st (snd (checkRDPAuth w executionId host port st))) = 1
     \<and> take 1 (new_events st (snd (checkRDPAuth w executionId host port st))) =
         [EvDial (Fastdialer d) TODO ''tcp'' (host @ '':'' @ fmt_d port)]
     \<and> dial_deadlines (new_events st (snd (checkRDPAuth w executionId host port st))) = [None]
     \<and> set (decoder_timeouts (new_events st (snd (checkRDPAuth w executionId host port st))))
         \<subseteq> {5 * Second}"
    by (simp add: checkRDPAuth_events d address split: outcome.split sum.split)
  from presence auth show ?thesis by simp
qed

theorem dial_through_resolved_dialer_witness:
  "new_events example_state (snd (isRDP example_world ''run-1'' ''acme.test'' 3389 example_state)) =
     [EvDial 7 TODO ''tcp'' ''acme.test:3389'', EvDetectRDP 1 (5 * Second), EvClose 1]
   \<and> dial_attempts (new_events example_state
        (snd (isRDP example_world ''run-1'' ''acme.test'' 3389 example_state))) = 1
   \<and> dial_deadlines (new_events example_state
        (snd (isRDP example_world ''run-1'' ''acme.test'' 3389 example_state))) = [None]
   \<and> decoder_timeouts (new_events example_state
        (snd (isRDP example_world ''run-1'' ''acme.test'' 3389 example_state))) = [5 * Second]
   \<and> dial_attempts (new_events example_state
        (snd (checkRDPAuth example_world ''run-1'' ''acme.test'' 3389 example_state))) = 1
   \<and> dial_deadlines (new_events example_state
        (snd (checkRDPAuth example_world ''run-1'' ''acme.test'' 3389 example_state))) = [None]"
proof -
  have d: "GetDialersWithId example_state ''run-1'' = Some \<lparr>Fastdialer = 7\<rparr>"
    by (simp add: GetDialersWithId_def example_state_def)
  have events:
    "new_events example_state (snd (isRDP example_world ''run-1'' ''acme.test'' 3389 example_state)) =
       [EvDial 7 TODO ''tcp'' ''acme.test:3389'', EvDetectRDP 1 (5 * Second), EvClose 1]"
    by (simp add: example_isRDP_acme new_events_def Second_def)
  from dial_through_resolved_dialer [OF d, of example_world "''acme.test''" 3389] events
  show ?thesis by simp
qed

subsection \<open>The run identity\<close>

text \<open>
  C10. When the context holds no string under the key "executionId" (no value at all,
  or a value of another type), \<open>IsRDP\<close> and \<open>CheckRDPAuth\<close> panic with the error of the
  failed type assertion and change nothing; they do not return an error. When it holds
  a string, that string is passed on as the run identity, as it is, with the host and
  the port, to the memoized probe.
\<close>

theorem run_identity_unchecked_assertion:
  "((\<forall>s. Value ctx (AnyString ''executionId'') \<noteq> Some (AnyString s)) \<longrightarrow>
      IsRDP_fn w ctx host port ms = (Panics TypeAssertionError, ms)
      \<and> CheckRDPAuth w ctx host port ms = (Panics TypeAssertionError, ms))
   \<and> (Value ctx (AnyString ''executionId'') = Some (AnyString executionId) \<longrightarrow>
      IsRDP_fn w ctx host port ms = memoizedisRDP w executionId host port ms
      \<and> CheckRDPAuth w ctx host port ms = memoizedcheckRDPAuth w executionId host port ms)"
proof (intro conjI impI)
  assume none: "\<forall>s. Value ctx (AnyString ''executionId'') \<noteq> Some (AnyString s)"
  then have "assert_string (Value ctx (AnyString ''executionId'')) = Panics TypeAssertionError"
    by (auto simp: assert_string_def split: option.split any.split)
  then show "IsRDP_fn w ctx host port ms = (Panics TypeAssertionError, ms)"
    and "CheckRDPAuth w ctx host port ms = (Panics TypeAssertionError, ms)"
    by (simp_all add: IsRDP_fn_def CheckRDPAuth_def)
next
  assume "Value ctx (AnyString ''executionId'') = Some (AnyString executionId)"
  then have "assert_string (Value ctx (AnyString ''executionId'')) = Returns executionId"
    by (simp add: assert_string_def)
  then show "IsRDP_fn w ctx host port ms = memoizedisRDP w executionId host port ms"
    and "CheckRDPAuth w ctx host port ms = memoizedcheckRDPAuth w executionId host port ms"
    by (simp_all add: IsRDP_fn_def CheckRDPAuth_def)
qed

theorem run_identity_unchecked_assertion_witness:
  "IsRDP_fn example_world Background ''acme.test'' 3389 example_memo_state =
     (Panics TypeAssertionError, example_memo_state)
   \<and> CheckRDPAuth example_world
       (WithValue Background (AnyString ''executionId'') (AnyInt 1)) ''acme.test'' 3389
       example_memo_state =
     (Panics TypeAssertionError, example_memo_state)
   \<and> IsRDP_fn example_world example_ctx ''acme.test'' 3389 example_memo_state =
     memoizedisRDP example_world ''run-1'' ''acme.test'' 3389 example_memo_state
   \<and> CheckRDPAuth example_world example_ctx ''acme.test'' 3389 example_memo_state =
     memoizedcheckRDPAuth example_world ''run-1'' ''acme.test'' 3389 example_memo_state"
proof -
  have absent: "\<forall>s. Value Background (AnyString ''executionId'') \<noteq> Some (AnyString s)"
    by simp
  have not_string:
    "\<forall>s. Value (WithValue Background (AnyString ''executionId'') (AnyInt 1))
           (AnyString ''executionId'') \<noteq> Some (AnyString s)"
    by simp
  have present: "Value example_ctx (AnyString ''executionId'') = Some (AnyString ''run-1'')"
    by (simp add: example_ctx_def)
  from run_identity_unchecked_assertion
         [where ctx = Background and w = example_world and host = "''acme.test''"
           and port = 3389 and ms = example_memo_state]
       run_identity_unchecked_assertion
         [where ctx = "WithValue Background (AnyString ''executionId'') (AnyInt 1)"
           and w = example_world and host = "''acme.test''" and port = 3389
           and ms = example_memo_state]
       run_identity_unchecked_assertion
         [where ctx = example_ctx and executionId = "''run-1''" and w = example_world
           and host = "''acme.test''" and port = 3389 and ms = example_memo_state]
       absent not_string present
  show ?thesis by simp
qed

subsection \<open>Memoization\<close>

lemma memoize_hit:
  "cache key = Some out \<Longrightarrow> memoize key computeFn (cache, st) = (Returns out, cache, st)"
  by (simp add: memoize_def)

lemma memoize_Returns:
  assumes "memoize key computeFn (cache, st) = (Returns out, cache', st')"
  shows "(cache key = Some out \<and> cache' = cache \<and> st' = st)
       \<or> (cache key = None \<and> computeFn st = (Returns out, st') \<and> cache' = cache(key \<mapsto> out))"
  using assms
  by (auto simp: memoize_def split: option.splits prod.splits outcome.splits)

lemma memoize_stores:
  assumes "memoize key computeFn (cache, st) = (Returns out, cache', st')"
  shows "cache' key = Some out"
  using memoize_Returns [OF assms] by auto

lemma isRDP_probes_once:
  "dial_attempts (new_events st (snd (isRDP w executionId host port st))) \<le> 1
   \<and> decoder_calls (new_events st (snd (isRDP w executionId host port st))) \<le> 1"
  by (simp add: isRDP_events split: option.split outcome.split sum.split)

lemma example_isRDP_flaky:
  "isRDP example_world ''run-1'' ''flaky.test'' 3389 example_state =
     (Returns (\<lparr>IsRDP = False, OS = ''''\<rparr>, Some (ErrorString ''connection refused'')),
      example_state\<lparr>trace := [EvDial 7 TODO ''tcp'' ''flaky.test:3389'']\<rparr>)"
  by (simp add: isRDP_def probe_defs example_defs)

lemma example_isRDP_flaky_again:
  "fst (isRDP example_world ''run-1'' ''flaky.test'' 3389
     (example_state\<lparr>trace := [EvDial 7 TODO ''tcp'' ''flaky.test:3389'']\<rparr>)) =
     Returns (\<lparr>IsRDP = True, OS = ''Windows Server 2019''\<rparr>, None)"
  by (simp add: isRDP_def probe_defs example_defs)

lemma example_memoizedisRDP_flaky:
  "memoizedisRDP example_world ''run-1'' ''flaky.test'' 3389 example_memo_state =
     (Returns (\<lparr>IsRDP = False, OS = ''''\<rparr>, Some (ErrorString ''connection refused'')),
      example_memo_state
        \<lparr>presence_cache :=
           [(''run-1'', ''flaky.test'', 3389) \<mapsto>
              (\<lparr>IsRDP = False, OS = ''''\<rparr>, Some (ErrorString ''connection refused''))],
         run := example_state\<lparr>trace := [EvDial 7 TODO ''tcp'' ''flaky.test:3389'']\<rparr>\<rparr>)"
  by (simp add: memoizedisRDP_def memoize_def example_memo_state_def example_isRDP_flaky)

text \<open>
  C1. When a call of the memoized presence probe returns an outcome, success or failure,
  the outcome is stored under the run identity, host and port, and a second call with
  the same three returns the same outcome and changes nothing: it makes no call to the
  dialer or the decoder. The two calls together have dialled at most once and called the
  decoder at most once.
\<close>

theorem memoized_presence_probe_twice:
  assumes "memoizedisRDP w executionId host port ms = (Returns r, ms1)"
  shows "presence_cache ms1 (executionId, host, port) = Some r
       \<and> memoizedisRDP w executionId host port ms1 = (Returns r, ms1)
       \<and> dial_attempts (new_events (run ms)
           (run (snd (memoizedisRDP w executionId host port ms1)))) \<le> 1
       \<and> decoder_calls (new_events (run ms)
           (run (snd (memoizedisRDP w executionId host port ms1)))) \<le> 1"
proof -
  obtain out cache' st' where
    m: "memoize (executionId, host, port) (isRDP w executionId host port)
          (presence_cache ms, run ms) = (out, cache', st')"
    by (cases "memoize (executionId, host, port) (isRDP w executionId host port)
          (presence_cache ms, run ms)") auto
  with assms have out: "out = Returns r"
    and ms1: "ms1 = ms\<lparr>presence_cache := cache', run := st'\<rparr>"
    by (simp_all add: memoizedisRDP_def)
  from m out have stored: "cache' (executionId, host, port) = Some r"
    by (simp add: memoize_stores)
  have second: "memoizedisRDP w executionId host port ms1 = (Returns r, ms1)"
    by (simp add: memoizedisRDP_def ms1
        memoize_hit [of cache' "(executionId, host, port)", OF stored])
  from m out have
    "(st' = run ms) \<or> (isRDP w executionId host port (run ms) = (Returns r, st'))"
    using memoize_Returns by fastforce
  then have events:
    "dial_attempts (new_events (run ms) st') \<le> 1 \<and> decoder_calls (new_events (run ms) st') \<le> 1"
  proof
    assume "st' = run ms"
    then show ?thesis by simp
  next
    assume "isRDP w executionId host port (run ms) = (Returns r, st')"
    then have "st' = snd (isRDP w executionId host port (run ms))" by simp
    then show ?thesis using isRDP_probes_once by simp
  qed
  from stored second events show ?thesis by (simp add: ms1)
qed

theorem memoized_presence_probe_twice_witness:
  "memoizedisRDP example_world ''run-1'' ''flaky.test'' 3389 example_memo_state =
     (Returns (\<lparr>IsRDP = False, OS = ''''\<rparr>, Some (ErrorString ''connection refused'')),
      example_memo_state
        \<lparr>presence_cache :=
           [(''run-1'', ''flaky.test'', 3389) \<mapsto>
              (\<lparr>IsRDP = False, OS = ''''\<rparr>, Some (ErrorString ''connection refused''))],
         run := example_state\<lparr>trace := [EvDial 7 TODO ''tcp'' ''flaky.test:3389'']\<rparr>\<rparr>)
   \<and> memoizedisRDP example_world ''run-1'' ''flaky.test'' 3389
       (example_memo_state
        \<lparr>presence_cache :=
           [(''run-1'', ''flaky.test'', 3389) \<mapsto>
              (\<lparr>IsRDP = False, OS = ''''\<rparr>, Some (ErrorString ''connection refused''))],
         run := example_state\<lparr>trace := [EvDial 7 TODO ''tcp'' ''flaky.test:3389'']\<rparr>\<rparr>) =
     (Returns (\<lparr>IsRDP = False, OS = ''''\<rparr>, Some (ErrorString ''connection refused'')),
      example_memo_state
        \<lparr>presence_cache :=
           [(''run-1'', ''flaky.test'', 3389) \<mapsto>
              (\<lparr>IsRDP = False, OS = ''''\<rparr>, Some (ErrorString ''connection refused''))],
         run := example_state\<lparr>trace := [EvDial 7 TODO ''tcp'' ''flaky.test:3389'']\<rparr>\<rparr>)
   \<and> fst (isRDP example_world ''run-1'' ''flaky.test'' 3389
       (example_state\<lparr>trace := [EvDial 7 TODO ''tcp'' ''flaky.test:3389'']\<rparr>)) =
     Returns (\<lparr>IsRDP = True, OS = ''Windows Server 2019''\<rparr>, None)"
  using memoized_presence_probe_twice [OF example_memoizedisRDP_flaky]
    example_memoizedisRDP_flaky example_isRDP_flaky_again
  by simp

end
